theory Spec2Isabelle
  imports Main
begin

section \<open>Errors\<close>

text \<open>
  Python exceptions are values. The message bridge raises \<^verbatim>\<open>RuntimeError\<close> with a
  formatted text; \<^verbatim>\<open>self.agent.chat\<close> on an agent that is still \<^verbatim>\<open>None\<close> raises
  \<^verbatim>\<open>AttributeError\<close>; the message classes of the external chat-message library raise
  \<^verbatim>\<open>ValidationError\<close> when a field is rejected; everything else an external collaborator
  may raise (prompt loading, prompt rendering, client construction, the model call) is an
  \<open>Exception\<close> carrying its text. All of them are caught by \<^verbatim>\<open>except Exception\<close>.
\<close>

datatype error =
    RuntimeError string
  | AttributeError string
  | ValidationError string
  | Exception string

fun str_error :: "error \<Rightarrow> string" where
  "str_error (RuntimeError s) = s"
| "str_error (AttributeError s) = s"
| "str_error (ValidationError s) = s"
| "str_error (Exception s) = s"

section \<open>message.py: the message bridge\<close>

text \<open>
  The value held by a \<^verbatim>\<open>content\<close> attribute. It is declared \<^verbatim>\<open>Optional[str]\<close>, and
  \<^verbatim>\<open>from_langchain\<close> tests \<^verbatim>\<open>isinstance(message.content, str)\<close>, so a content that is
  not a string (the external format also allows a list of blocks) is a value of its own.
  \<^verbatim>\<open>None\<close> is the \<open>None\<close> of \<open>content option\<close>.
\<close>

datatype content = Str string | Blocks "string list"

text \<open>
  A tool call is a dictionary with the keys \<^verbatim>\<open>name\<close>, \<^verbatim>\<open>args\<close> and \<^verbatim>\<open>id\<close> (which may be
  \<^verbatim>\<open>None\<close>) and the optional key \<^verbatim>\<open>type\<close>; \<open>tc_type = None\<close> is a dictionary without
  that key.
\<close>

datatype ToolCall =
  ToolCall (tc_name: string) (tc_args: "(string \<times> string) list") (tc_id: "string option")
    (tc_type: "string option")

text \<open>
  \<^verbatim>\<open>class Message(TeamsAIMessage[str])\<close>: the inherited \<^verbatim>\<open>role\<close> and \<^verbatim>\<open>content\<close> and the
  two attributes the class adds, both defaulting to \<^verbatim>\<open>None\<close>. The role is a plain
  Python string: nothing in the class restricts it to the four recognised values.
\<close>

record Message =
  role :: string
  content :: "content option"
  tool_calls :: "ToolCall list option"
  tool_call_id :: "string option"

text \<open>
  The external chat-message library (\<^verbatim>\<open>langchain_core.messages\<close>) is outside the
  repository. A message of the library is one of four recognised variants, or some other
  variant (\<open>OtherMessage\<close>, with its class name). Its fields are what the library
  declares: \<^verbatim>\<open>content\<close> is a string or a list of blocks, \<^verbatim>\<open>AIMessage.tool_calls\<close> is a list
  of tool calls, empty by default, and \<^verbatim>\<open>ToolMessage.tool_call_id\<close> is a string.
\<close>

datatype BaseMessage =
    is_SystemMessage: SystemMessage content
  | is_HumanMessage: HumanMessage content
  | is_AIMessage: AIMessage content "ToolCall list"
  | is_ToolMessage: ToolMessage content string
  | is_OtherMessage: OtherMessage string content

fun message_content :: "BaseMessage \<Rightarrow> content" where
  "message_content (SystemMessage c) = c"
| "message_content (HumanMessage c) = c"
| "message_content (AIMessage c tcs) = c"
| "message_content (ToolMessage c tid) = c"
| "message_content (OtherMessage cls c) = c"

text \<open>
  The constructors of the library validate what the caller passes and raise
  \<^verbatim>\<open>ValidationError\<close> on a value that the field's declaration excludes: a \<^verbatim>\<open>content\<close> that
  is \<^verbatim>\<open>None\<close>, a \<^verbatim>\<open>tool_calls\<close> that is \<^verbatim>\<open>None\<close>, a \<^verbatim>\<open>tool_call_id\<close> that is \<^verbatim>\<open>None\<close>.
  \<^verbatim>\<open>AIMessage\<close> stores each tool call it is given with the key \<^verbatim>\<open>type\<close> set to
  \<^verbatim>\<open>"tool_call"\<close>. The second argument of \<open>new_AIMessage\<close> is the keyword \<^verbatim>\<open>tool_calls\<close>; a
  call that does not pass the keyword takes the default, the empty list.
\<close>

definition new_SystemMessage :: "content option \<Rightarrow> error + BaseMessage" where
  "new_SystemMessage c =
     (case c of None \<Rightarrow> Inl (ValidationError ''content'') | Some v \<Rightarrow> Inr (SystemMessage v))"

definition new_HumanMessage :: "content option \<Rightarrow> error + BaseMessage" where
  "new_HumanMessage c =
     (case c of None \<Rightarrow> Inl (ValidationError ''content'') | Some v \<Rightarrow> Inr (HumanMessage v))"

definition as_tool_call :: "ToolCall \<Rightarrow> ToolCall" where
  "as_tool_call tc = ToolCall (tc_name tc) (tc_args tc) (tc_id tc) (Some ''tool_call'')"

definition new_AIMessage :: "content option \<Rightarrow> ToolCall list option \<Rightarrow> error + BaseMessage" where
  "new_AIMessage c tcs =
     (case c of
        None \<Rightarrow> Inl (ValidationError ''content'')
      | Some v \<Rightarrow>
          (case tcs of
             None \<Rightarrow> Inl (ValidationError ''tool_calls'')
           | Some calls \<Rightarrow> Inr (AIMessage v (map as_tool_call calls))))"

definition new_ToolMessage :: "content option \<Rightarrow> string option \<Rightarrow> error + BaseMessage" where
  "new_ToolMessage c tid =
     (case c of
        None \<Rightarrow> Inl (ValidationError ''content'')
      | Some v \<Rightarrow>
          (case tid of
             None \<Rightarrow> Inl (ValidationError ''tool_call_id'')
           | Some i \<Rightarrow> Inr (ToolMessage v i)))"

text \<open>\<^verbatim>\<open>to_langchain\<close>: the attributes \<^verbatim>\<open>self.tool_calls\<close> and \<^verbatim>\<open>self.tool_call_id\<close> are
  passed as they are, \<^verbatim>\<open>None\<close> included.\<close>

definition to_langchain :: "Message \<Rightarrow> error + BaseMessage" where
  "to_langchain self =
     (let c = (case content self of Some c \<Rightarrow> c | None \<Rightarrow> Str '''') in
      if role self = ''system'' then new_SystemMessage (Some c)
      else if role self = ''user'' then new_HumanMessage (Some c)
      else if role self = ''assistant'' then new_AIMessage (Some c) (tool_calls self)
      else if role self = ''tool'' then new_ToolMessage (Some c) (tool_call_id self)
      else Inl (RuntimeError (''invalid message role '' @ role self)))"

text \<open>\<^verbatim>\<open>message.content if isinstance(message.content, str) else ""\<close>\<close>

fun str_or_empty :: "content \<Rightarrow> content" where
  "str_or_empty (Str s) = Str s"
| "str_or_empty (Blocks bs) = Str ''''"

fun from_langchain :: "BaseMessage \<Rightarrow> error + Message" where
  "from_langchain (SystemMessage c) =
     Inr \<lparr>role = ''system'', content = Some (str_or_empty c), tool_calls = None, tool_call_id = None\<rparr>"
| "from_langchain (HumanMessage c) =
     Inr \<lparr>role = ''user'', content = Some (str_or_empty c), tool_calls = None, tool_call_id = None\<rparr>"
| "from_langchain (AIMessage c tcs) =
     Inr \<lparr>role = ''assistant'', content = Some (str_or_empty c), tool_calls = Some tcs,
          tool_call_id = None\<rparr>"
| "from_langchain (ToolMessage c tid) =
     Inr \<lparr>role = ''tool'', content = Some (str_or_empty c), tool_calls = None,
          tool_call_id = Some tid\<rparr>"
| "from_langchain (OtherMessage cls c) =
     Inl (RuntimeError (''invalid message type '' @ cls))"

text \<open>The composition \<^verbatim>\<open>Message.from_langchain(m.to_langchain())\<close>; an exception of the
  first call propagates.\<close>

definition round_trip :: "Message \<Rightarrow> error + Message" where
  "round_trip m = (case to_langchain m of Inl e \<Rightarrow> Inl e | Inr ext \<Rightarrow> from_langchain ext)"

definition recognized_roles :: "string set" where
  "recognized_roles = {''system'', ''user'', ''assistant'', ''tool''}"

text \<open>The optional attributes that \<^verbatim>\<open>to_langchain\<close> hands to the external variant of the
  message's role: \<^verbatim>\<open>tool_calls\<close> for an assistant message, \<^verbatim>\<open>tool_call_id\<close> for a tool
  message, none for the others.\<close>

definition carried_fields_only :: "Message \<Rightarrow> bool" where
  "carried_fields_only m \<longleftrightarrow>
     (role m \<noteq> ''assistant'' \<longrightarrow> tool_calls m = None) \<and>
     (role m \<noteq> ''tool'' \<longrightarrow> tool_call_id m = None)"

text \<open>The carried attribute is present in the form the external variant stores it: an
  assistant message holds a list of tool calls, possibly empty, each with the key \<^verbatim>\<open>type\<close>
  set to \<^verbatim>\<open>"tool_call"\<close>, and a tool message holds a \<^verbatim>\<open>tool_call_id\<close>.\<close>

definition carried_fields_stored :: "Message \<Rightarrow> bool" where
  "carried_fields_stored m \<longleftrightarrow>
     (role m = ''assistant'' \<longrightarrow>
        (\<exists>calls. tool_calls m = Some calls \<and> list_all (\<lambda>tc. tc_type tc = Some ''tool_call'') calls)) \<and>
     (role m = ''tool'' \<longrightarrow> tool_call_id m \<noteq> None)"

section \<open>state.py: the conversation state\<close>

text \<open>
  \<^verbatim>\<open>class AppConversationState(ConversationState)\<close> with its two class-level defaults,
  \<^verbatim>\<open>lights_on: bool = False\<close> and \<^verbatim>\<open>history: List[Message] = []\<close>.
\<close>

record AppConversationState =
  lights_on :: bool
  history :: "Message list"

datatype UserState = UserState "(string \<times> string) list"

datatype TempState = TempState "(string \<times> string) list"

record AppTurnState =
  conversation :: AppConversationState
  user :: UserState
  temp :: TempState

text \<open>The incoming activity: its text (\<^verbatim>\<open>context.activity.text\<close>, taken to be a string)
  and the identities the scoped reads are keyed by.\<close>

record TurnContext =
  activity_text :: string
  conversation_key :: string
  user_key :: string

text \<open>
  Modelled from the spec: the framework's base classes (\<^verbatim>\<open>teams.state\<close>) and the storage
  backend are outside the repository. The spec describes each scoped read as returning a
  mapping of field name to value, or the empty mapping when nothing is stored. For the
  conversation scope the mapping is restricted to the two declared fields, each present
  or absent.
\<close>

record StoredConversation =
  stored_lights_on :: "bool option"
  stored_history :: "Message list option"

record Storage =
  conversation_scope :: "string \<rightharpoonup> StoredConversation"
  user_scope :: "string \<rightharpoonup> (string \<times> string) list"

definition ConversationState_load :: "TurnContext \<Rightarrow> Storage \<Rightarrow> StoredConversation" where
  "ConversationState_load context storage =
     (case conversation_scope storage (conversation_key context) of
        None \<Rightarrow> \<lparr>stored_lights_on = None, stored_history = None\<rparr>
      | Some items \<Rightarrow> items)"

definition UserState_load :: "TurnContext \<Rightarrow> Storage \<Rightarrow> UserState" where
  "UserState_load context storage =
     (case user_scope storage (user_key context) of
        None \<Rightarrow> UserState []
      | Some items \<Rightarrow> UserState items)"

definition TempState_load :: "TurnContext \<Rightarrow> Storage \<Rightarrow> TempState" where
  "TempState_load context storage = TempState []"

text \<open>\<^verbatim>\<open>cls(**state)\<close>: a keyword present in the loaded mapping sets the field, a field
  without keyword keeps the class-level default.\<close>

definition AppConversationState_init :: "StoredConversation \<Rightarrow> AppConversationState" where
  "AppConversationState_init kwargs =
     \<lparr>lights_on = (case stored_lights_on kwargs of None \<Rightarrow> False | Some b \<Rightarrow> b),
      history = (case stored_history kwargs of None \<Rightarrow> [] | Some h \<Rightarrow> h)\<rparr>"

definition AppConversationState_load :: "TurnContext \<Rightarrow> Storage \<Rightarrow> AppConversationState" where
  "AppConversationState_load context storage =
     (let state = ConversationState_load context storage in AppConversationState_init state)"

definition AppTurnState_load :: "TurnContext \<Rightarrow> Storage \<Rightarrow> AppTurnState" where
  "AppTurnState_load context storage =
     \<lparr>conversation = AppConversationState_load context storage,
      user = UserState_load context storage,
      temp = TempState_load context storage\<rparr>"

section \<open>Observable effects\<close>

text \<open>
  Calls to the external collaborators and log lines are recorded as events, in the order
  the code performs them. An element of the list handed to \<^verbatim>\<open>chat\<close> is either an object
  with a \<^verbatim>\<open>role\<close> and a \<^verbatim>\<open>content\<close> attribute (the planner passes \<^verbatim>\<open>Message\<close> objects) or an
  object lacking one of them, which \<^verbatim>\<open>hasattr\<close> rejects.
\<close>

datatype history_entry = Entry Message | Malformed

record PromptTemplate =
  template_name :: string
  max_input_tokens :: nat

datatype log_arg = ArgStr string | ArgContent content | ArgInt nat

datatype event =
    GetPromptTemplate
  | RenderAsText PromptTemplate nat
  | NewModelClient
  | AgentChat string "history_entry list"
  | ModelInvoke "BaseMessage list"
  | LogDebug string "log_arg list"
  | LogError string

fun is_log :: "event \<Rightarrow> bool" where
  "is_log (LogDebug fmt args) = True"
| "is_log (LogError msg) = True"
| "is_log _ = False"

fun is_init_event :: "event \<Rightarrow> bool" where
  "is_init_event GetPromptTemplate = True"
| "is_init_event (RenderAsText t n) = True"
| "is_init_event NewModelClient = True"
| "is_init_event _ = False"

section \<open>langgraph\_agent.py: the responder\<close>

text \<open>The model client: \<^verbatim>\<open>await self.llm.ainvoke(messages)\<close> returns the reply message or
  raises.\<close>

type_synonym ChatModel = "BaseMessage list \<Rightarrow> error + BaseMessage"

record SimpleLangGraphAgent =
  system_prompt :: string
  llm :: ChatModel

text \<open>
  The collaborators a planner is built with: the prompt factory
  (\<^verbatim>\<open>self._prompt_factory\<close>, by default \<^verbatim>\<open>self.prompts.get_prompt(name)\<close>), the rendering
  of a template (\<^verbatim>\<open>template.prompt.render_as_text(...)\<close>, whose result's \<^verbatim>\<open>output\<close> is the
  text) and the construction of the model client (\<^verbatim>\<open>AzureChatOpenAI(...)\<close>). Each may
  raise.
\<close>

record Collaborators =
  prompt_factory :: "TurnContext \<Rightarrow> AppTurnState \<Rightarrow> error + PromptTemplate"
  render_as_text :: "PromptTemplate \<Rightarrow> TurnContext \<Rightarrow> AppTurnState \<Rightarrow> nat \<Rightarrow> error + string"
  AzureChatOpenAI :: "error + ChatModel"

definition default_system_prompt :: string where
  "default_system_prompt = ''You are a helpful AI assistant powered by Azure OpenAI and LangGraph.''"

text \<open>\<^verbatim>\<open>SimpleLangGraphAgent.__init__\<close>. \<^verbatim>\<open>system_prompt or "..."\<close> takes the default for
  \<^verbatim>\<open>None\<close> and for the empty string. The environment variables it copies from the
  configuration are not part of the model.\<close>

definition SimpleLangGraphAgent_init ::
  "Collaborators \<Rightarrow> string option \<Rightarrow> (error + SimpleLangGraphAgent) \<times> event list" where
  "SimpleLangGraphAgent_init env sp =
     (let prompt = (case sp of None \<Rightarrow> default_system_prompt
                    | Some s \<Rightarrow> if s = [] then default_system_prompt else s) in
      case AzureChatOpenAI env of
        Inl e \<Rightarrow> (Inl e, [NewModelClient])
      | Inr client \<Rightarrow> (Inr \<lparr>system_prompt = prompt, llm = client\<rparr>, [NewModelClient]))"

text \<open>\<^verbatim>\<open>_chat_node\<close>: the system message is put in front when the state holds exactly one
  message and that message is a \<^verbatim>\<open>HumanMessage\<close>; the node returns the list holding the
  model's reply.\<close>

definition node_messages :: "SimpleLangGraphAgent \<Rightarrow> BaseMessage list \<Rightarrow> BaseMessage list" where
  "node_messages self messages =
     (if length messages = 1 \<and> is_HumanMessage (messages ! 0)
      then [SystemMessage (Str (system_prompt self))] @ messages
      else messages)"

definition chat_node ::
  "SimpleLangGraphAgent \<Rightarrow> BaseMessage list \<Rightarrow> (error + BaseMessage list) \<times> event list" where
  "chat_node self messages =
     (let messages1 = node_messages self messages in
      case llm self messages1 of
        Inl e \<Rightarrow> (Inl e, [ModelInvoke messages1])
      | Inr response \<Rightarrow> (Inr [response], [ModelInvoke messages1]))"

text \<open>
  Modelled from the spec: the graph engine (\<^verbatim>\<open>langgraph\<close>) is outside the repository. The
  graph built by \<^verbatim>\<open>_build_graph\<close> is the single node \<^verbatim>\<open>chat\<close> between \<^verbatim>\<open>START\<close> and \<^verbatim>\<open>END\<close>;
  running it runs the node once on the initial messages, and the \<^verbatim>\<open>add_messages\<close> reducer
  puts the node's messages after them. An exception of the node propagates.
\<close>

definition graph_ainvoke ::
  "SimpleLangGraphAgent \<Rightarrow> BaseMessage list \<Rightarrow> (error + BaseMessage list) \<times> event list" where
  "graph_ainvoke self initial_state =
     (case chat_node self initial_state of
        (Inl e, ev) \<Rightarrow> (Inl e, ev)
      | (Inr update, ev) \<Rightarrow> (Inr (initial_state @ update), ev))"

text \<open>The loop of \<^verbatim>\<open>chat\<close> over \<^verbatim>\<open>conversation_history\<close>, \<^verbatim>\<open>messages\<close> being the list it
  appends to. \<^verbatim>\<open>HumanMessage(content=msg.content)\<close> and \<^verbatim>\<open>AIMessage(content=msg.content)\<close>
  raise when the content is \<^verbatim>\<open>None\<close>, and the exception leaves the loop and \<^verbatim>\<open>chat\<close>.\<close>

fun history_loop :: "BaseMessage list \<Rightarrow> history_entry list \<Rightarrow> error + BaseMessage list" where
  "history_loop messages [] = Inr messages"
| "history_loop messages (Malformed # rest) = history_loop messages rest"
| "history_loop messages (Entry msg # rest) =
     (if role msg = ''user'' then
        (case new_HumanMessage (content msg) of
           Inl e \<Rightarrow> Inl e
         | Inr m \<Rightarrow> history_loop (messages @ [m]) rest)
      else if role msg = ''assistant'' then
        (case new_AIMessage (content msg) (Some []) of
           Inl e \<Rightarrow> Inl e
         | Inr m \<Rightarrow> history_loop (messages @ [m]) rest)
      else history_loop messages rest)"

text \<open>The list \<^verbatim>\<open>messages\<close> that \<^verbatim>\<open>chat\<close> hands to the graph: the converted history and the
  current message, whose content is a string.\<close>

definition chat_messages :: "string \<Rightarrow> history_entry list \<Rightarrow> error + BaseMessage list" where
  "chat_messages message conversation_history =
     (case (if conversation_history \<noteq> [] then history_loop [] conversation_history else Inr []) of
        Inl e \<Rightarrow> Inl e
      | Inr messages \<Rightarrow> Inr (messages @ [HumanMessage (Str message)]))"

definition chat ::
  "SimpleLangGraphAgent \<Rightarrow> string \<Rightarrow> history_entry list \<Rightarrow> (error + content) \<times> event list" where
  "chat self message conversation_history =
     (case chat_messages message conversation_history of
        Inl e \<Rightarrow> (Inl e, [])
      | Inr messages \<Rightarrow>
          (case graph_ainvoke self messages of
             (Inl e, ev) \<Rightarrow> (Inl e, ev)
           | (Inr result, ev) \<Rightarrow>
               (if result = [] then (Inl (Exception ''list index out of range''), ev)
                else (Inr (message_content (last result)), ev))))"

section \<open>langgraph\_planner.py: the turn planner\<close>

text \<open>The part of a planner that changes: \<^verbatim>\<open>self.agent\<close>, \<^verbatim>\<open>None\<close> until the first
  initialization.\<close>

record LangGraphPlanner =
  agent :: "SimpleLangGraphAgent option"

definition LangGraphPlanner_init :: LangGraphPlanner where
  "LangGraphPlanner_init = \<lparr>agent = None\<rparr>"

datatype PredictedSayCommand = PredictedSayCommand (response: Message)

record Plan =
  commands :: "PredictedSayCommand list"

text \<open>\<^verbatim>\<open>Message(role=r, content=c)\<close>, the two optional attributes at their default.\<close>

definition Message_init :: "string \<Rightarrow> content option \<Rightarrow> Message" where
  "Message_init r c = \<lparr>role = r, content = c, tool_calls = None, tool_call_id = None\<rparr>"

definition apology :: string where
  "apology = ''I apologize, but I encountered an error while processing your request. Please try again.''"

text \<open>\<^verbatim>\<open>state.conversation.history.append(m)\<close>\<close>

definition history_append :: "AppTurnState \<Rightarrow> Message \<Rightarrow> AppTurnState" where
  "history_append state m =
     state\<lparr>conversation := (conversation state)\<lparr>history := history (conversation state) @ [m]\<rparr>\<rparr>"

text \<open>\<^verbatim>\<open>_ensure_agent_initialized\<close>: returns the exception or \<^verbatim>\<open>None\<close>, the planner after the
  call and the events of the call.\<close>

definition ensure_agent_initialized ::
  "Collaborators \<Rightarrow> TurnContext \<Rightarrow> AppTurnState \<Rightarrow> LangGraphPlanner
     \<Rightarrow> (error + unit) \<times> LangGraphPlanner \<times> event list" where
  "ensure_agent_initialized env context state self =
     (case agent self of
        Some a \<Rightarrow> (Inr (), self, [])
      | None \<Rightarrow>
          (case prompt_factory env context state of
             Inl e \<Rightarrow> (Inl e, self, [GetPromptTemplate])
           | Inr template \<Rightarrow>
               (let n = max_input_tokens template;
                    ev = [GetPromptTemplate, RenderAsText template n] in
                case render_as_text env template context state n of
                  Inl e \<Rightarrow> (Inl e, self, ev)
                | Inr rendered_output \<Rightarrow>
                    (case SimpleLangGraphAgent_init env (Some rendered_output) of
                       (Inl e, ev1) \<Rightarrow> (Inl e, self, ev @ ev1)
                     | (Inr a, ev1) \<Rightarrow>
                         (Inr (), self\<lparr>agent := Some a\<rparr>,
                          ev @ ev1 @
                          [LogDebug (''Initialized agent with system prompt: ''
                                       @ take 100 rendered_output @ ''...'') []])))))"

text \<open>\<^verbatim>\<open>_generate_response\<close>: the plan (or an exception), the turn state after the call and
  the events. The \<^verbatim>\<open>try\<close> block holds the call of \<^verbatim>\<open>self.agent.chat\<close>, so an agent that is
  \<^verbatim>\<open>None\<close> there is caught like any other exception.\<close>

definition generate_response ::
  "TurnContext \<Rightarrow> AppTurnState \<Rightarrow> LangGraphPlanner \<Rightarrow> (error + Plan) \<times> AppTurnState \<times> event list" where
  "generate_response context state self =
     (let user_message = activity_text context;
          h = history (conversation state);
          conversation_history = (if length h > 0 then butlast h else []);
          call = (case agent self of
                    None \<Rightarrow> (Inl (AttributeError ''NoneType object has no attribute chat''), [])
                  | Some a \<Rightarrow>
                      (case chat a user_message (map Entry conversation_history) of
                         (r, ev) \<Rightarrow> (r, [AgentChat user_message (map Entry conversation_history)] @ ev)))
      in case call of
           (Inr agent_response, ev) \<Rightarrow>
             (Inr \<lparr>commands = [PredictedSayCommand (Message_init ''assistant'' (Some agent_response))]\<rparr>,
              history_append state (Message_init ''assistant'' (Some agent_response)),
              ev @ [LogDebug ''agent response (with history) => %s'' [ArgContent agent_response],
                    LogDebug ''conversation history length => %d'' [ArgInt (length conversation_history)]])
         | (Inl e, ev) \<Rightarrow>
             (Inr \<lparr>commands = [PredictedSayCommand (Message_init ''assistant'' (Some (Str apology)))]\<rparr>,
              state,
              ev @ [LogError (''Error generating response: '' @ str_error e)]))"

text \<open>\<^verbatim>\<open>begin_task\<close> and \<^verbatim>\<open>continue_task\<close>: the plan or the exception, the turn state and the
  planner after the call, and the events.\<close>

definition begin_task ::
  "Collaborators \<Rightarrow> TurnContext \<Rightarrow> AppTurnState \<Rightarrow> LangGraphPlanner
     \<Rightarrow> (error + Plan) \<times> AppTurnState \<times> LangGraphPlanner \<times> event list" where
  "begin_task env context state self =
     (case ensure_agent_initialized env context state self of
        (Inl e, self1, ev1) \<Rightarrow> (Inl e, state, self1, ev1)
      | (Inr u, self1, ev1) \<Rightarrow>
          (let ev2 = [LogDebug ''begin_task - input => %s'' [ArgStr (activity_text context)]];
               state1 = history_append state (Message_init ''user'' (Some (Str (activity_text context))))
           in case generate_response context state1 self1 of
                (r, state2, ev3) \<Rightarrow> (r, state2, self1, ev1 @ ev2 @ ev3)))"

definition continue_task ::
  "Collaborators \<Rightarrow> TurnContext \<Rightarrow> AppTurnState \<Rightarrow> LangGraphPlanner
     \<Rightarrow> (error + Plan) \<times> AppTurnState \<times> LangGraphPlanner \<times> event list" where
  "continue_task env context state self =
     (case ensure_agent_initialized env context state self of
        (Inl e, self1, ev1) \<Rightarrow> (Inl e, state, self1, ev1)
      | (Inr u, self1, ev1) \<Rightarrow>
          (let ev2 = [LogDebug ''continue_task - input => %s'' [ArgStr (activity_text context)]];
               state1 = history_append state (Message_init ''user'' (Some (Str (activity_text context))))
           in case generate_response context state1 self1 of
                (r, state2, ev3) \<Rightarrow> (r, state2, self1, ev1 @ ev2 @ ev3)))"

subsection \<open>A planner's lifetime\<close>

text \<open>One planner instance serves every turn: a sequence of calls, each with the
  collaborators' behaviour at that moment, its turn context and its loaded turn state. The
  planner left by one call is the planner of the next.\<close>

datatype task = BeginTask | ContinueTask

type_synonym call = "task \<times> Collaborators \<times> TurnContext \<times> AppTurnState"

fun perform ::
  "call \<Rightarrow> LangGraphPlanner \<Rightarrow> (error + Plan) \<times> AppTurnState \<times> LangGraphPlanner \<times> event list" where
  "perform (BeginTask, env, context, state) self = begin_task env context state self"
| "perform (ContinueTask, env, context, state) self = continue_task env context state self"






section \<open>Vocabulary of the properties\<close>

text \<open>What the properties say about the history handed to \<^verbatim>\<open>chat\<close>: an entry is forwarded
  when it has both attributes and its role is \<^verbatim>\<open>"user"\<close> or \<^verbatim>\<open>"assistant"\<close>, and it is
  forwarded as the human or the assistant variant holding its content.\<close>

fun forwarded_entry :: "history_entry \<Rightarrow> bool" where
  "forwarded_entry (Entry msg) = (role msg = ''user'' \<or> role msg = ''assistant'')"
| "forwarded_entry Malformed = False"

fun forward_entry :: "history_entry \<Rightarrow> error + BaseMessage" where
  "forward_entry (Entry msg) =
     (if role msg = ''user'' then new_HumanMessage (content msg)
      else new_AIMessage (content msg) (Some []))"
| "forward_entry Malformed = Inl (AttributeError ''role'')"

text \<open>The results of a sequence of conversions, or the first exception among them.\<close>

fun collect :: "(error + 'a) list \<Rightarrow> error + 'a list" where
  "collect [] = Inr []"
| "collect (Inl e # rs) = Inl e"
| "collect (Inr x # rs) = (case collect rs of Inl e \<Rightarrow> Inl e | Inr xs \<Rightarrow> Inr (x # xs))"

fun is_AgentChat :: "event \<Rightarrow> bool" where
  "is_AgentChat (AgentChat message conversation_history) = True"
| "is_AgentChat _ = False"

fun is_ModelInvoke :: "event \<Rightarrow> bool" where
  "is_ModelInvoke (ModelInvoke messages) = True"
| "is_ModelInvoke _ = False"

fun is_GetPromptTemplate :: "event \<Rightarrow> bool" where
  "is_GetPromptTemplate GetPromptTemplate = True"
| "is_GetPromptTemplate _ = False"

fun is_RenderAsText :: "event \<Rightarrow> bool" where
  "is_RenderAsText (RenderAsText t n) = True"
| "is_RenderAsText _ = False"

section \<open>Sample collaborators and inputs\<close>

definition oslo_model :: ChatModel where
  "oslo_model messages = Inr (AIMessage (Str ''Oslo.'') [])"

text \<open>A model client whose reply spells out the messages it was invoked with.\<close>

fun content_text :: "content \<Rightarrow> string" where
  "content_text (Str s) = s"
| "content_text (Blocks bs) = concat bs"

fun transcript_line :: "BaseMessage \<Rightarrow> string" where
  "transcript_line (SystemMessage c) = ''system: '' @ content_text c @ ''; ''"
| "transcript_line (HumanMessage c) = ''user: '' @ content_text c @ ''; ''"
| "transcript_line (AIMessage c tcs) = ''assistant: '' @ content_text c @ ''; ''"
| "transcript_line (ToolMessage c tid) = ''tool: '' @ content_text c @ ''; ''"
| "transcript_line (OtherMessage cls c) = ''other: '' @ content_text c @ ''; ''"

definition transcript_model :: ChatModel where
  "transcript_model messages = Inr (AIMessage (Str (concat (map transcript_line messages))) [])"

definition transcript_agent :: SimpleLangGraphAgent where
  "transcript_agent = \<lparr>system_prompt = ''Answer briefly.'', llm = transcript_model\<rparr>"

definition failing_model :: ChatModel where
  "failing_model messages = Inl (Exception ''model unavailable'')"

definition tools_template :: PromptTemplate where
  "tools_template = \<lparr>template_name = ''tools'', max_input_tokens = 2048\<rparr>"

definition working_env :: Collaborators where
  "working_env =
     \<lparr>prompt_factory = (\<lambda>context state. Inr tools_template),
      render_as_text = (\<lambda>template context state n. Inr ''Answer briefly.''),
      AzureChatOpenAI = Inr oslo_model\<rparr>"

definition failing_model_env :: Collaborators where
  "failing_model_env =
     \<lparr>prompt_factory = (\<lambda>context state. Inr tools_template),
      render_as_text = (\<lambda>template context state n. Inr ''Answer briefly.''),
      AzureChatOpenAI = Inr failing_model\<rparr>"


definition hello_context :: TurnContext where
  "hello_context =
     \<lparr>activity_text = ''Hello! What is the capital of Norway?'',
      conversation_key = ''conversation-1'', user_key = ''user-1''\<rparr>"

definition fresh_state :: AppTurnState where
  "fresh_state =
     \<lparr>conversation = \<lparr>lights_on = False, history = []\<rparr>, user = UserState [], temp = TempState []\<rparr>"

definition greeted_state :: AppTurnState where
  "greeted_state =
     \<lparr>conversation =
        \<lparr>lights_on = False,
         history = [Message_init ''user'' (Some (Str ''Hi'')),
                    Message_init ''assistant'' (Some (Str ''Hello.''))]\<rparr>,
      user = UserState [], temp = TempState []\<rparr>"

definition empty_storage :: Storage where
  "empty_storage = \<lparr>conversation_scope = Map.empty, user_scope = Map.empty\<rparr>"

definition lit_storage :: Storage where
  "lit_storage =
     \<lparr>conversation_scope =
        [''conversation-1'' \<mapsto> \<lparr>stored_lights_on = Some True, stored_history = None\<rparr>],
      user_scope = Map.empty\<rparr>"

definition failing_agent :: SimpleLangGraphAgent where
  "failing_agent = \<lparr>system_prompt = ''Answer briefly.'', llm = failing_model\<rparr>"

definition oslo_agent :: SimpleLangGraphAgent where
  "oslo_agent = \<lparr>system_prompt = ''Answer briefly.'', llm = oslo_model\<rparr>"

section \<open>The message bridge\<close>

lemma as_tool_call_typed: "tc_type tc = Some ''tool_call'' \<Longrightarrow> as_tool_call tc = tc"
  by (cases tc) (simp add: as_tool_call_def)

lemma map_as_tool_call_typed:
  "list_all (\<lambda>tc. tc_type tc = Some ''tool_call'') calls \<Longrightarrow> map as_tool_call calls = calls"
  by (induction calls) (simp_all add: as_tool_call_typed)

text \<open>
  C6. The claim is that \<^verbatim>\<open>to_langchain\<close> never raises for a message whose role is one of the
  four recognised values. The code raises for an assistant message whose \<^verbatim>\<open>tool_calls\<close> is
  \<^verbatim>\<open>None\<close>, the default of the attribute and what the planner's own assistant messages
  hold, and for a tool message whose \<^verbatim>\<open>tool_call_id\<close> is \<^verbatim>\<open>None\<close>: it passes the \<^verbatim>\<open>None\<close> on
  to the external constructor, which rejects it. A message with an unrecognised role
  raises the \<^verbatim>\<open>RuntimeError\<close> that names the role, as the claim says.
\<close>

theorem to_langchain_raises_on_default_fields:
  "to_langchain \<lparr>role = ''assistant'', content = Some (Str ''Oslo.''), tool_calls = None,
                  tool_call_id = None\<rparr>
     = Inl (ValidationError ''tool_calls'') \<and>
   to_langchain \<lparr>role = ''tool'', content = Some (Str ''done''), tool_calls = None,
                  tool_call_id = None\<rparr>
     = Inl (ValidationError ''tool_call_id'') \<and>
   to_langchain \<lparr>role = ''function'', content = Some (Str ''x''), tool_calls = None,
                  tool_call_id = None\<rparr>
     = Inl (RuntimeError ''invalid message role function'')"
  by (simp add: to_langchain_def new_AIMessage_def new_ToolMessage_def)

text \<open>
  C3, as stated, fails: a user message with string content that also holds a
  \<^verbatim>\<open>tool_call_id\<close> has a recognised role, but the human variant does not carry the
  attribute, so the message that comes back has \<^verbatim>\<open>tool_call_id = None\<close> and differs from
  the one that went in. Likewise an assistant message whose tool call has no \<^verbatim>\<open>type\<close> key
  comes back with the key set, as the assistant variant stores it.
\<close>

theorem round_trip_drops_stray_tool_call_id:
  "role \<lparr>role = ''user'', content = Some (Str ''hi''), tool_calls = None, tool_call_id = Some ''call_1''\<rparr>
     \<in> recognized_roles \<and>
   content \<lparr>role = ''user'', content = Some (Str ''hi''), tool_calls = None, tool_call_id = Some ''call_1''\<rparr>
     = Some (Str ''hi'') \<and>
   round_trip \<lparr>role = ''user'', content = Some (Str ''hi''), tool_calls = None, tool_call_id = Some ''call_1''\<rparr>
     = Inr \<lparr>role = ''user'', content = Some (Str ''hi''), tool_calls = None, tool_call_id = None\<rparr> \<and>
   round_trip \<lparr>role = ''user'', content = Some (Str ''hi''), tool_calls = None, tool_call_id = Some ''call_1''\<rparr>
     \<noteq> Inr \<lparr>role = ''user'', content = Some (Str ''hi''), tool_calls = None, tool_call_id = Some ''call_1''\<rparr> \<and>
   round_trip \<lparr>role = ''assistant'', content = Some (Str ''Oslo.''),
                tool_calls = Some [ToolCall ''lookup'' [(''q'', ''Norway'')] (Some ''call_1'') None],
                tool_call_id = None\<rparr>
     = Inr \<lparr>role = ''assistant'', content = Some (Str ''Oslo.''),
            tool_calls = Some [ToolCall ''lookup'' [(''q'', ''Norway'')] (Some ''call_1'') (Some ''tool_call'')],
            tool_call_id = None\<rparr>"
  by (simp add: round_trip_def to_langchain_def recognized_roles_def new_HumanMessage_def
                new_AIMessage_def as_tool_call_def)

text \<open>
  C3, amended. For every message whose role is one of the four recognised values, whose
  content is a string, which holds \<^verbatim>\<open>tool_calls\<close> only if it is an assistant message and
  \<^verbatim>\<open>tool_call_id\<close> only if it is a tool message, and whose carried attribute is present in
  the form the external variant stores it (an assistant message holds a list of tool
  calls typed \<^verbatim>\<open>"tool_call"\<close>, possibly empty, and a tool message holds a \<^verbatim>\<open>tool_call_id\<close>),
  converting to the external format and back returns the message itself; the
  \<^verbatim>\<open>tool_calls\<close> of an assistant message and the \<^verbatim>\<open>tool_call_id\<close> of a tool message are
  preserved. Nothing is said here of an assistant message whose \<^verbatim>\<open>tool_calls\<close> is \<^verbatim>\<open>None\<close>
  or a tool message without \<^verbatim>\<open>tool_call_id\<close>.
\<close>

theorem round_trip_identity:
  assumes "role m \<in> recognized_roles"
      and "content m = Some (Str s)"
      and "carried_fields_only m"
      and "carried_fields_stored m"
  shows "round_trip m = Inr m"
proof -
  consider "role m = ''system''" | "role m = ''user''" | "role m = ''assistant''" | "role m = ''tool''"
    using assms(1) by (auto simp: recognized_roles_def)
  then show ?thesis
  proof cases
    case 1
    with assms(2,3) show ?thesis
      by (simp add: round_trip_def to_langchain_def new_SystemMessage_def carried_fields_only_def)
  next
    case 2
    with assms(2,3) show ?thesis
      by (simp add: round_trip_def to_langchain_def new_HumanMessage_def carried_fields_only_def)
  next
    case 3
    with assms(4) obtain calls where c: "tool_calls m = Some calls"
        and t: "list_all (\<lambda>tc. tc_type tc = Some ''tool_call'') calls"
      by (auto simp: carried_fields_stored_def)
    from 3 assms(3) have i: "tool_call_id m = None"
      by (simp add: carried_fields_only_def)
    from 3 c i assms(2) show ?thesis
      by (simp add: round_trip_def to_langchain_def new_AIMessage_def map_as_tool_call_typed [OF t])
  next
    case 4
    with assms(4) obtain i where i: "tool_call_id m = Some i"
      by (auto simp: carried_fields_stored_def)
    from 4 assms(3) have c: "tool_calls m = None"
      by (simp add: carried_fields_only_def)
    from 4 c i assms(2) show ?thesis
      by (simp add: round_trip_def to_langchain_def new_ToolMessage_def)
  qed
qed

theorem round_trip_identity_witness:
  "round_trip \<lparr>role = ''assistant'', content = Some (Str ''Oslo.''),
                tool_calls = Some [ToolCall ''lookup'' [(''q'', ''Norway'')] (Some ''call_1'') (Some ''tool_call'')],
                tool_call_id = None\<rparr>
     = Inr \<lparr>role = ''assistant'', content = Some (Str ''Oslo.''),
            tool_calls = Some [ToolCall ''lookup'' [(''q'', ''Norway'')] (Some ''call_1'') (Some ''tool_call'')],
            tool_call_id = None\<rparr> \<and>
   round_trip \<lparr>role = ''tool'', content = Some (Str ''done''), tool_calls = None,
                tool_call_id = Some ''call_1''\<rparr>
     = Inr \<lparr>role = ''tool'', content = Some (Str ''done''), tool_calls = None,
            tool_call_id = Some ''call_1''\<rparr> \<and>
   round_trip \<lparr>role = ''user'', content = Some (Str ''hi''), tool_calls = None, tool_call_id = None\<rparr>
     = Inr \<lparr>role = ''user'', content = Some (Str ''hi''), tool_calls = None, tool_call_id = None\<rparr>"
  using round_trip_identity
          [of "\<lparr>role = ''assistant'', content = Some (Str ''Oslo.''),
                tool_calls = Some [ToolCall ''lookup'' [(''q'', ''Norway'')] (Some ''call_1'') (Some ''tool_call'')],
                tool_call_id = None\<rparr>" "''Oslo.''"]
        round_trip_identity
          [of "\<lparr>role = ''tool'', content = Some (Str ''done''), tool_calls = None,
                tool_call_id = Some ''call_1''\<rparr>" "''done''"]
        round_trip_identity
          [of "\<lparr>role = ''user'', content = Some (Str ''hi''), tool_calls = None, tool_call_id = None\<rparr>"
              "''hi''"]
  by (simp add: recognized_roles_def carried_fields_only_def carried_fields_stored_def)

section \<open>Loading the turn state\<close>

text \<open>
  C8. When the turn state is loaded and the storage holds nothing for the conversation,
  the conversation state is the pair of defaults, \<^verbatim>\<open>lights_on = False\<close> and
  \<^verbatim>\<open>history = []\<close>; and field by field, a field without stored value takes its default
  whatever is stored for the other.
\<close>

theorem load_takes_defaults:
  "(conversation_scope storage (conversation_key context) = None \<longrightarrow>
      conversation (AppTurnState_load context storage) = \<lparr>lights_on = False, history = []\<rparr>) \<and>
   (stored_history (ConversationState_load context storage) = None \<longrightarrow>
      history (conversation (AppTurnState_load context storage)) = []) \<and>
   (stored_lights_on (ConversationState_load context storage) = None \<longrightarrow>
      lights_on (conversation (AppTurnState_load context storage)) = False)"
  by (simp add: AppTurnState_load_def AppConversationState_load_def AppConversationState_init_def
                ConversationState_load_def)

theorem load_takes_defaults_witness:
  "conversation_scope empty_storage (conversation_key hello_context) = None \<and>
   conversation (AppTurnState_load hello_context empty_storage) = \<lparr>lights_on = False, history = []\<rparr> \<and>
   stored_history (ConversationState_load hello_context lit_storage) = None \<and>
   history (conversation (AppTurnState_load hello_context lit_storage)) = [] \<and>
   lights_on (conversation (AppTurnState_load hello_context lit_storage)) = True \<and>
   stored_lights_on (ConversationState_load hello_context empty_storage) = None \<and>
   lights_on (conversation (AppTurnState_load hello_context empty_storage)) = False"
  using load_takes_defaults [of empty_storage hello_context]
        load_takes_defaults [of lit_storage hello_context]
  by (simp add: empty_storage_def lit_storage_def hello_context_def ConversationState_load_def
                AppTurnState_load_def AppConversationState_load_def AppConversationState_init_def)

section \<open>The responder\<close>

text \<open>
  The loop over the history keeps what it was given and appends the conversions of the
  forwarded entries in order, or raises the first exception among them. \<^verbatim>\<open>chat\<close> returns
  what the model client returns on the messages the node sends it, and its events are
  that one model call.
\<close>

lemma history_loop_collect:
  "history_loop acc h =
     (case collect (map forward_entry (filter forwarded_entry h)) of
        Inl e \<Rightarrow> Inl e
      | Inr ms \<Rightarrow> Inr (acc @ ms))"
proof (induction acc h rule: history_loop.induct)
  case (1 messages)
  show ?case by simp
next
  case (2 messages rest)
  then show ?case by simp
next
  case (3 messages msg rest)
  show ?case
  proof (cases "role msg = ''user''")
    case True
    show ?thesis
    proof (cases "new_HumanMessage (content msg)")
      case (Inl e)
      with True show ?thesis by simp
    next
      case (Inr m)
      with True "3.IH"(1) [of m] show ?thesis
        by (simp split: sum.splits)
    qed
  next
    case False
    note nu = False
    show ?thesis
    proof (cases "role msg = ''assistant''")
      case True
      show ?thesis
      proof (cases "new_AIMessage (content msg) (Some [])")
        case (Inl e)
        with nu True show ?thesis by simp
      next
        case (Inr m)
        with nu True "3.IH"(2) [of m] show ?thesis
          by (simp split: sum.splits)
      qed
    next
      case False
      with nu "3.IH"(3) show ?thesis by simp
    qed
  qed
qed

lemma chat_messages_collect:
  "chat_messages message h =
     (case collect (map forward_entry (filter forwarded_entry h)) of
        Inl e \<Rightarrow> Inl e
      | Inr ms \<Rightarrow> Inr (ms @ [HumanMessage (Str message)]))"
  by (cases "h = []") (simp_all add: chat_messages_def history_loop_collect split: sum.splits)

lemma collect_length: "collect rs = Inr xs \<Longrightarrow> length xs = length rs"
proof (induction rs arbitrary: xs)
  case Nil
  then show ?case by simp
next
  case (Cons r rs)
  then show ?case by (cases r) (auto split: sum.splits)
qed

lemma forward_entry_not_system: "forward_entry e = Inr m \<Longrightarrow> \<not> is_SystemMessage m"
  by (cases e)
     (auto simp: new_HumanMessage_def new_AIMessage_def split: if_splits option.splits)

lemma collect_forwarded_never_system:
  "collect (map forward_entry es) = Inr ms \<Longrightarrow> filter is_SystemMessage ms = []"
proof (induction es arbitrary: ms)
  case Nil
  then show ?case by simp
next
  case (Cons e es)
  show ?case
  proof (cases "forward_entry e")
    case (Inl err)
    with Cons.prems show ?thesis by simp
  next
    case (Inr m)
    with Cons.prems obtain ms' where c: "collect (map forward_entry es) = Inr ms'"
        and ms: "ms = m # ms'"
      by (auto split: sum.splits)
    from Cons.IH [OF c] forward_entry_not_system [OF Inr] ms show ?thesis by simp
  qed
qed

lemma chat_messages_never_system:
  assumes "chat_messages message h = Inr ms"
  shows "filter is_SystemMessage ms = []"
proof -
  from assms obtain fs where c: "collect (map forward_entry (filter forwarded_entry h)) = Inr fs"
      and ms: "ms = fs @ [HumanMessage (Str message)]"
    by (auto simp: chat_messages_collect split: sum.splits)
  from collect_forwarded_never_system [OF c] ms show ?thesis by simp
qed

lemma node_messages_chat:
  assumes "chat_messages message h = Inr ms"
  shows "node_messages self ms =
     (if filter forwarded_entry h = []
      then [SystemMessage (Str (system_prompt self)), HumanMessage (Str message)]
      else ms)"
proof -
  from assms obtain fs where c: "collect (map forward_entry (filter forwarded_entry h)) = Inr fs"
      and ms: "ms = fs @ [HumanMessage (Str message)]"
    by (auto simp: chat_messages_collect split: sum.splits)
  from collect_length [OF c] have l: "length fs = length (filter forwarded_entry h)"
    by simp
  show ?thesis
  proof (cases "filter forwarded_entry h = []")
    case True
    with l have "fs = []" by simp
    with True ms show ?thesis by (simp add: node_messages_def)
  next
    case False
    with l have "fs \<noteq> []" by auto
    then have "length ms \<noteq> 1" using ms by simp
    with False show ?thesis by (simp add: node_messages_def)
  qed
qed

lemma chat_result:
  "fst (chat self message h) =
     (case chat_messages message h of
        Inl e \<Rightarrow> Inl e
      | Inr ms \<Rightarrow>
          (case llm self (node_messages self ms) of
             Inl e \<Rightarrow> Inl e
           | Inr answer \<Rightarrow> Inr (message_content answer)))"
  by (simp add: chat_def graph_ainvoke_def chat_node_def Let_def split: sum.splits)

lemma chat_events:
  "snd (chat self message h) =
     (case chat_messages message h of
        Inl e \<Rightarrow> []
      | Inr ms \<Rightarrow> [ModelInvoke (node_messages self ms)])"
  by (simp add: chat_def graph_ainvoke_def chat_node_def Let_def split: sum.splits)

lemma chat_oslo:
  "fst (chat oslo_agent message (map Entry (history (conversation fresh_state)))) = Inr (Str ''Oslo.'')"
  by (simp add: chat_result chat_messages_def fresh_state_def oslo_agent_def oslo_model_def)

lemma chat_failing:
  "fst (chat failing_agent message (map Entry (history (conversation fresh_state))))
     = Inl (Exception ''model unavailable'')"
  by (simp add: chat_result chat_messages_def fresh_state_def failing_agent_def failing_model_def)

text \<open>
  C10. \<^verbatim>\<open>chat\<close> converts exactly the entries of the prior history that have both attributes
  and whose role is \<^verbatim>\<open>"user"\<close> or \<^verbatim>\<open>"assistant"\<close>, in order, and puts the current user
  message after them; this list is what the node hands on to the model, and when a
  conversion raises no model call is made. System messages, tool messages, entries of any
  other role and malformed entries are dropped silently: the call returns and records the
  same with them as without them.
\<close>

theorem chat_forwards_only_user_and_assistant:
  "chat_messages message h =
     (case collect (map forward_entry (filter forwarded_entry h)) of
        Inl e \<Rightarrow> Inl e
      | Inr ms \<Rightarrow> Inr (ms @ [HumanMessage (Str message)])) \<and>
   snd (chat self message h) =
     (case collect (map forward_entry (filter forwarded_entry h)) of
        Inl e \<Rightarrow> []
      | Inr ms \<Rightarrow> [ModelInvoke (node_messages self (ms @ [HumanMessage (Str message)]))]) \<and>
   chat self message h = chat self message (filter forwarded_entry h)"
proof (intro conjI)
  show "chat_messages message h =
     (case collect (map forward_entry (filter forwarded_entry h)) of
        Inl e \<Rightarrow> Inl e
      | Inr ms \<Rightarrow> Inr (ms @ [HumanMessage (Str message)]))"
    by (rule chat_messages_collect)
next
  show "snd (chat self message h) =
     (case collect (map forward_entry (filter forwarded_entry h)) of
        Inl e \<Rightarrow> []
      | Inr ms \<Rightarrow> [ModelInvoke (node_messages self (ms @ [HumanMessage (Str message)]))])"
    by (simp add: chat_events chat_messages_collect split: sum.splits)
next
  have "chat_messages message (filter forwarded_entry h) = chat_messages message h"
    by (simp add: chat_messages_collect)
  then show "chat self message h = chat self message (filter forwarded_entry h)"
    by (simp only: chat_def)
qed

text \<open>
  C9, as stated, fails in its second half: a prior history that is not empty but holds
  only entries that \<^verbatim>\<open>chat\<close> drops (here one system message) leaves the current user
  message alone in the list handed to the graph, and the node puts the system
  instruction in front of it. The model client of the example replies with the messages
  it was invoked with.
\<close>

theorem system_message_sent_with_nonempty_history:
  "[Entry \<lparr>role = ''system'', content = Some (Str ''Be formal.''), tool_calls = None,
            tool_call_id = None\<rparr>] \<noteq> [] \<and>
   chat transcript_agent ''hi''
          [Entry \<lparr>role = ''system'', content = Some (Str ''Be formal.''), tool_calls = None,
                   tool_call_id = None\<rparr>]
     = (Inr (Str ''system: Answer briefly.; user: hi; ''),
        [ModelInvoke [SystemMessage (Str ''Answer briefly.''), HumanMessage (Str ''hi'')]])"
  by (simp add: chat_def chat_messages_def graph_ainvoke_def chat_node_def node_messages_def
                transcript_agent_def transcript_model_def Let_def)

text \<open>
  C9, amended. The model client is invoked with the responder's system instruction in
  front only when the list handed to the graph holds exactly one message and that
  message is a user message; in every other case it is invoked with the list as it is.
  For every \<^verbatim>\<open>chat\<close> call whose prior history holds at least one user or assistant entry
  the model is invoked with the converted entries and the current message, none of which
  is a system message; a call whose prior history holds no such entry invokes it with
  the system instruction and the current message. When a conversion raises, no model
  call is made.
\<close>

theorem system_instruction_only_without_forwarded_history:
  "fst (chat_node self messages) =
     (case llm self (if length messages = 1 \<and> is_HumanMessage (messages ! 0)
                     then SystemMessage (Str (system_prompt self)) # messages
                     else messages) of
        Inl e \<Rightarrow> Inl e
      | Inr answer \<Rightarrow> Inr [answer]) \<and>
   (\<forall>ms. chat_messages message h = Inr ms \<longrightarrow>
      fst (chat self message h) =
        (case llm self (if filter forwarded_entry h = []
                        then [SystemMessage (Str (system_prompt self)), HumanMessage (Str message)]
                        else ms) of
           Inl e \<Rightarrow> Inl e
         | Inr answer \<Rightarrow> Inr (message_content answer)) \<and>
      filter is_SystemMessage ms = []) \<and>
   (\<forall>e. chat_messages message h = Inl e \<longrightarrow> chat self message h = (Inl e, []))"
proof (intro conjI allI impI)
  show "fst (chat_node self messages) =
     (case llm self (if length messages = 1 \<and> is_HumanMessage (messages ! 0)
                     then SystemMessage (Str (system_prompt self)) # messages
                     else messages) of
        Inl e \<Rightarrow> Inl e
      | Inr answer \<Rightarrow> Inr [answer])"
    by (simp add: chat_node_def node_messages_def Let_def split: sum.splits)
next
  fix ms
  assume m: "chat_messages message h = Inr ms"
  show "fst (chat self message h) =
        (case llm self (if filter forwarded_entry h = []
                        then [SystemMessage (Str (system_prompt self)), HumanMessage (Str message)]
                        else ms) of
           Inl e \<Rightarrow> Inl e
         | Inr answer \<Rightarrow> Inr (message_content answer))"
    by (simp only: chat_result m node_messages_chat [OF m] sum.case)
next
  fix ms
  assume m: "chat_messages message h = Inr ms"
  show "filter is_SystemMessage ms = []"
    by (rule chat_messages_never_system [OF m])
next
  fix e
  assume "chat_messages message h = Inl e"
  then show "chat self message h = (Inl e, [])"
    by (simp add: chat_def)
qed

theorem system_instruction_only_without_forwarded_history_witness:
  "chat_messages ''And Sweden?''
     [Entry \<lparr>role = ''user'', content = Some (Str ''Capital of Norway?''), tool_calls = None,
              tool_call_id = None\<rparr>,
      Entry \<lparr>role = ''assistant'', content = Some (Str ''Oslo.''), tool_calls = None,
              tool_call_id = None\<rparr>]
     = Inr [HumanMessage (Str ''Capital of Norway?''), AIMessage (Str ''Oslo.'') [],
            HumanMessage (Str ''And Sweden?'')] \<and>
   fst (chat transcript_agent ''And Sweden?''
     [Entry \<lparr>role = ''user'', content = Some (Str ''Capital of Norway?''), tool_calls = None,
              tool_call_id = None\<rparr>,
      Entry \<lparr>role = ''assistant'', content = Some (Str ''Oslo.''), tool_calls = None,
              tool_call_id = None\<rparr>])
     = Inr (Str ''user: Capital of Norway?; assistant: Oslo.; user: And Sweden?; '') \<and>
   chat_messages ''hi''
     [Entry \<lparr>role = ''user'', content = None, tool_calls = None, tool_call_id = None\<rparr>]
     = Inl (ValidationError ''content'') \<and>
   chat transcript_agent ''hi''
     [Entry \<lparr>role = ''user'', content = None, tool_calls = None, tool_call_id = None\<rparr>]
     = (Inl (ValidationError ''content''), [])"
proof -
  let ?h = "[Entry \<lparr>role = ''user'', content = Some (Str ''Capital of Norway?''), tool_calls = None,
                     tool_call_id = None\<rparr>,
             Entry \<lparr>role = ''assistant'', content = Some (Str ''Oslo.''), tool_calls = None,
                     tool_call_id = None\<rparr>]"
  let ?ms = "[HumanMessage (Str ''Capital of Norway?''), AIMessage (Str ''Oslo.'') [],
              HumanMessage (Str ''And Sweden?'')]"
  let ?bad = "[Entry \<lparr>role = ''user'', content = None, tool_calls = None, tool_call_id = None\<rparr>]"
  have m: "chat_messages ''And Sweden?'' ?h = Inr ?ms"
    by (simp add: chat_messages_def new_HumanMessage_def new_AIMessage_def)
  have b: "chat_messages ''hi'' ?bad = Inl (ValidationError ''content'')"
    by (simp add: chat_messages_def new_HumanMessage_def)
  note T = system_instruction_only_without_forwarded_history
             [of transcript_agent _ "''And Sweden?''" ?h]
  note U = system_instruction_only_without_forwarded_history
             [of transcript_agent _ "''hi''" ?bad]
  from T m have "fst (chat transcript_agent ''And Sweden?'' ?h) =
        (case llm transcript_agent (if filter forwarded_entry ?h = []
                        then [SystemMessage (Str (system_prompt transcript_agent)),
                              HumanMessage (Str ''And Sweden?'')]
                        else ?ms) of
           Inl e \<Rightarrow> Inl e
         | Inr answer \<Rightarrow> Inr (message_content answer))"
    by blast
  then have r: "fst (chat transcript_agent ''And Sweden?'' ?h)
      = Inr (Str ''user: Capital of Norway?; assistant: Oslo.; user: And Sweden?; '')"
    by (simp add: transcript_agent_def transcript_model_def)
  from U b have c: "chat transcript_agent ''hi'' ?bad = (Inl (ValidationError ''content''), [])"
    by blast
  from m r b c show ?thesis
    by (intro conjI)
qed

section \<open>A turn of the planner\<close>

lemma ensure_initialized:
  "agent self = Some a \<Longrightarrow> ensure_agent_initialized env context state self = (Inr (), self, [])"
  by (simp add: ensure_agent_initialized_def)

lemma ensure_Inr_agent:
  "ensure_agent_initialized env context state self = (Inr u, self1, ev) \<Longrightarrow> \<exists>a. agent self1 = Some a"
  by (auto simp: ensure_agent_initialized_def Let_def split: option.splits sum.splits prod.splits)

lemma ensure_no_chat:
  "filter is_AgentChat (snd (snd (ensure_agent_initialized env context state self))) = []"
  "filter is_ModelInvoke (snd (snd (ensure_agent_initialized env context state self))) = []"
  by (auto simp: ensure_agent_initialized_def SimpleLangGraphAgent_init_def Let_def
           split: option.splits sum.splits prod.splits)

lemma ensure_working:
  "ensure_agent_initialized working_env hello_context fresh_state LangGraphPlanner_init =
     (Inr (), \<lparr>agent = Some oslo_agent\<rparr>,
      [GetPromptTemplate, RenderAsText tools_template 2048, NewModelClient,
       LogDebug ''Initialized agent with system prompt: Answer briefly....'' []])"
  by (simp add: ensure_agent_initialized_def LangGraphPlanner_init_def working_env_def
                SimpleLangGraphAgent_init_def tools_template_def oslo_agent_def Let_def)

lemma ensure_failing_model:
  "ensure_agent_initialized failing_model_env hello_context fresh_state LangGraphPlanner_init =
     (Inr (), \<lparr>agent = Some failing_agent\<rparr>,
      [GetPromptTemplate, RenderAsText tools_template 2048, NewModelClient,
       LogDebug ''Initialized agent with system prompt: Answer briefly....'' []])"
  by (simp add: ensure_agent_initialized_def LangGraphPlanner_init_def failing_model_env_def
                SimpleLangGraphAgent_init_def tools_template_def failing_agent_def Let_def)


lemma history_append_history:
  "history (conversation (history_append state m)) = history (conversation state) @ [m]"
  by (simp add: history_append_def)

lemma chat_events_filters:
  "filter is_init_event (snd (chat self message h)) = []"
  "filter is_AgentChat (snd (chat self message h)) = []"
  "filter is_GetPromptTemplate (snd (chat self message h)) = []"
  "filter is_RenderAsText (snd (chat self message h)) = []"
  "filter is_ModelInvoke (snd (chat self message h)) = snd (chat self message h)"
  by (simp_all add: chat_events split: sum.splits)

lemma generate_response_success:
  assumes "agent self = Some a"
      and "history (conversation state) = h @ [m]"
      and "fst (chat a (activity_text context) (map Entry h)) = Inr reply"
  shows "generate_response context state self =
           (Inr \<lparr>commands = [PredictedSayCommand (Message_init ''assistant'' (Some reply))]\<rparr>,
            history_append state (Message_init ''assistant'' (Some reply)),
            [AgentChat (activity_text context) (map Entry h)]
              @ snd (chat a (activity_text context) (map Entry h))
              @ [LogDebug ''agent response (with history) => %s'' [ArgContent reply],
                 LogDebug ''conversation history length => %d'' [ArgInt (length h)]])"
  using assms
  by (cases "chat a (activity_text context) (map Entry h)")
     (simp add: generate_response_def Let_def)

lemma generate_response_failure:
  assumes "agent self = Some a"
      and "history (conversation state) = h @ [m]"
      and "fst (chat a (activity_text context) (map Entry h)) = Inl e"
  shows "generate_response context state self =
           (Inr \<lparr>commands = [PredictedSayCommand (Message_init ''assistant'' (Some (Str apology)))]\<rparr>,
            state,
            [AgentChat (activity_text context) (map Entry h)]
              @ snd (chat a (activity_text context) (map Entry h))
              @ [LogError (''Error generating response: '' @ str_error e)])"
  using assms
  by (cases "chat a (activity_text context) (map Entry h)")
     (simp add: generate_response_def Let_def)





lemma perform_generate:
  assumes "ensure_agent_initialized env context state self = (Inr (), self1, ev1)"
      and "generate_response context
             (history_append state (Message_init ''user'' (Some (Str (activity_text context)))))
             self1 = (r, state2, ev3)"
  shows "perform (t, env, context, state) self =
           (r, state2, self1,
            ev1 @ [LogDebug ((case t of BeginTask \<Rightarrow> ''begin_task'' | ContinueTask \<Rightarrow> ''continue_task'')
                               @ '' - input => %s'') [ArgStr (activity_text context)]]
                @ ev3)"
  using assms by (cases t) (simp_all add: begin_task_def continue_task_def Let_def)

text \<open>
  C1. In every turn, begun by \<^verbatim>\<open>begin_task\<close> or by \<^verbatim>\<open>continue_task\<close>, in which the
  initialization does not raise and the responder's \<^verbatim>\<open>chat\<close> returns a reply, the planner
  returns a plan with exactly one command, carrying an assistant message whose content is
  the reply; afterwards the history is the earlier history followed by the user message
  and that assistant message, so \<^verbatim>\<open>history[-2]\<close> is the user message and \<^verbatim>\<open>history[-1]\<close>
  the assistant message with the reply.
\<close>

theorem successful_turn:
  assumes "ensure_agent_initialized env context state self = (Inr (), self1, ev1)"
      and "agent self1 = Some a"
      and "fst (chat a (activity_text context) (map Entry (history (conversation state)))) = Inr reply"
  shows "\<exists>state' ev.
           perform (t, env, context, state) self =
             (Inr \<lparr>commands = [PredictedSayCommand (Message_init ''assistant'' (Some reply))]\<rparr>,
              state', self1, ev) \<and>
           history (conversation state') =
             history (conversation state)
               @ [Message_init ''user'' (Some (Str (activity_text context))),
                  Message_init ''assistant'' (Some reply)] \<and>
           role (history (conversation state') ! (length (history (conversation state')) - 2)) = ''user'' \<and>
           role (last (history (conversation state'))) = ''assistant'' \<and>
           content (last (history (conversation state'))) = Some reply"
proof -
  let ?u = "Message_init ''user'' (Some (Str (activity_text context)))"
  let ?state1 = "history_append state ?u"
  have h1: "history (conversation ?state1) = history (conversation state) @ [?u]"
    by (rule history_append_history)
  note g = generate_response_success [OF assms(2) h1 assms(3)]
  have "\<exists>ev. perform (t, env, context, state) self =
          (Inr \<lparr>commands = [PredictedSayCommand (Message_init ''assistant'' (Some reply))]\<rparr>,
           history_append ?state1 (Message_init ''assistant'' (Some reply)), self1, ev)"
    using perform_generate [OF assms(1) g] by blast
  moreover have "history (conversation (history_append ?state1 (Message_init ''assistant'' (Some reply))))
      = history (conversation state) @ [?u, Message_init ''assistant'' (Some reply)]"
    by (simp add: history_append_history)
  ultimately show ?thesis
    by (auto simp: nth_append Message_init_def)
qed

theorem successful_turn_witness:
  "\<exists>state' ev.
     perform (BeginTask, working_env, hello_context, fresh_state) LangGraphPlanner_init =
       (Inr \<lparr>commands = [PredictedSayCommand (Message_init ''assistant'' (Some (Str ''Oslo.'')))]\<rparr>,
        state', \<lparr>agent = Some oslo_agent\<rparr>, ev) \<and>
     history (conversation state') =
       history (conversation fresh_state)
         @ [Message_init ''user'' (Some (Str (activity_text hello_context))),
            Message_init ''assistant'' (Some (Str ''Oslo.''))] \<and>
     role (history (conversation state') ! (length (history (conversation state')) - 2)) = ''user'' \<and>
     role (last (history (conversation state'))) = ''assistant'' \<and>
     content (last (history (conversation state'))) = Some (Str ''Oslo.'')"
  by (rule successful_turn [OF ensure_working _ chat_oslo]) simp

text \<open>
  C2. In every turn in which the responder's \<^verbatim>\<open>chat\<close> raises, the planner does not
  propagate the exception: it returns a plan with exactly one command, an assistant
  message whose content is the fixed apology, and the history afterwards is the earlier
  history followed by the user message only.
\<close>

theorem failed_generation:
  assumes "ensure_agent_initialized env context state self = (Inr (), self1, ev1)"
      and "agent self1 = Some a"
      and "fst (chat a (activity_text context) (map Entry (history (conversation state)))) = Inl e"
  shows "\<exists>plan state' ev.
           perform (t, env, context, state) self = (Inr plan, state', self1, ev) \<and>
           map (content \<circ> response) (commands plan) =
             [Some (Str ''I apologize, but I encountered an error while processing your request. Please try again.'')] \<and>
           map (role \<circ> response) (commands plan) = [''assistant''] \<and>
           history (conversation state') =
             history (conversation state) @ [Message_init ''user'' (Some (Str (activity_text context)))]"
proof -
  let ?u = "Message_init ''user'' (Some (Str (activity_text context)))"
  let ?state1 = "history_append state ?u"
  have h1: "history (conversation ?state1) = history (conversation state) @ [?u]"
    by (rule history_append_history)
  note g = generate_response_failure [OF assms(2) h1 assms(3)]
  have "\<exists>ev. perform (t, env, context, state) self =
          (Inr \<lparr>commands = [PredictedSayCommand (Message_init ''assistant'' (Some (Str apology)))]\<rparr>,
           ?state1, self1, ev)"
    using perform_generate [OF assms(1) g] by blast
  then show ?thesis
    by (auto simp: history_append_history Message_init_def apology_def)
qed

theorem failed_generation_witness:
  "\<exists>plan state' ev.
     perform (ContinueTask, failing_model_env, hello_context, fresh_state) LangGraphPlanner_init
       = (Inr plan, state', \<lparr>agent = Some failing_agent\<rparr>, ev) \<and>
     map (content \<circ> response) (commands plan) =
       [Some (Str ''I apologize, but I encountered an error while processing your request. Please try again.'')] \<and>
     map (role \<circ> response) (commands plan) = [''assistant''] \<and>
     history (conversation state') =
       history (conversation fresh_state)
         @ [Message_init ''user'' (Some (Str (activity_text hello_context)))]"
  by (rule failed_generation [OF ensure_failing_model _ chat_failing]) simp

text \<open>
  C5. A turn whose initialization does not raise appends the user message and then
  calls the responder's \<^verbatim>\<open>chat\<close> once, with the incoming text and with the history as it was
  before the turn, in order, which is the history after the append with its last element,
  the message just appended, removed: what the turn returns and leaves in the history is
  decided by what \<^verbatim>\<open>chat\<close> returns on exactly these arguments, and the model calls of the
  turn are those of that \<^verbatim>\<open>chat\<close> call.
\<close>

theorem responder_called_with_prior_history:
  assumes "ensure_agent_initialized env context state self = (Inr (), self1, ev1)"
      and "agent self1 = Some a"
  shows "\<exists>ev.
           perform (t, env, context, state) self =
             (case fst (chat a (activity_text context) (map Entry (history (conversation state)))) of
                Inr reply \<Rightarrow>
                  (Inr \<lparr>commands = [PredictedSayCommand (Message_init ''assistant'' (Some reply))]\<rparr>,
                   history_append
                     (history_append state (Message_init ''user'' (Some (Str (activity_text context)))))
                     (Message_init ''assistant'' (Some reply)),
                   self1, ev)
              | Inl e \<Rightarrow>
                  (Inr \<lparr>commands = [PredictedSayCommand (Message_init ''assistant'' (Some (Str apology)))]\<rparr>,
                   history_append state (Message_init ''user'' (Some (Str (activity_text context)))),
                   self1, ev)) \<and>
           filter is_AgentChat ev =
             [AgentChat (activity_text context) (map Entry (history (conversation state)))] \<and>
           filter is_ModelInvoke ev =
             snd (chat a (activity_text context) (map Entry (history (conversation state)))) \<and>
           butlast (history (conversation
                      (history_append state (Message_init ''user'' (Some (Str (activity_text context)))))))
             = history (conversation state)"
proof -
  let ?u = "Message_init ''user'' (Some (Str (activity_text context)))"
  let ?state1 = "history_append state ?u"
  let ?h = "history (conversation state)"
  let ?c = "chat a (activity_text context) (map Entry ?h)"
  let ?pre = "ev1 @ [LogDebug ((case t of BeginTask \<Rightarrow> ''begin_task'' | ContinueTask \<Rightarrow> ''continue_task'')
                                 @ '' - input => %s'') [ArgStr (activity_text context)]]"
  have h1: "history (conversation ?state1) = ?h @ [?u]"
    by (rule history_append_history)
  have n: "filter is_AgentChat ev1 = []" "filter is_ModelInvoke ev1 = []"
    using ensure_no_chat [of env "context" state self] assms(1) by simp_all
  show ?thesis
  proof (cases "fst ?c")
    case (Inl e)
    note g = generate_response_failure [OF assms(2) h1 Inl]
    let ?ev = "?pre @ [AgentChat (activity_text context) (map Entry ?h)] @ snd ?c
                 @ [LogError (''Error generating response: '' @ str_error e)]"
    have "perform (t, env, context, state) self =
            (Inr \<lparr>commands = [PredictedSayCommand (Message_init ''assistant'' (Some (Str apology)))]\<rparr>,
             ?state1, self1, ?ev)"
      using perform_generate [OF assms(1) g] by simp
    moreover have "filter is_AgentChat ?ev = [AgentChat (activity_text context) (map Entry ?h)]"
      by (simp add: n chat_events_filters)
    moreover have "filter is_ModelInvoke ?ev = snd ?c"
      by (simp add: n chat_events_filters)
    ultimately show ?thesis
      using Inl h1 by (intro exI [of _ ?ev]) simp
  next
    case (Inr reply)
    note g = generate_response_success [OF assms(2) h1 Inr]
    let ?ev = "?pre @ [AgentChat (activity_text context) (map Entry ?h)] @ snd ?c
                 @ [LogDebug ''agent response (with history) => %s'' [ArgContent reply],
                    LogDebug ''conversation history length => %d'' [ArgInt (length ?h)]]"
    have "perform (t, env, context, state) self =
            (Inr \<lparr>commands = [PredictedSayCommand (Message_init ''assistant'' (Some reply))]\<rparr>,
             history_append ?state1 (Message_init ''assistant'' (Some reply)), self1, ?ev)"
      using perform_generate [OF assms(1) g] by simp
    moreover have "filter is_AgentChat ?ev = [AgentChat (activity_text context) (map Entry ?h)]"
      by (simp add: n chat_events_filters)
    moreover have "filter is_ModelInvoke ?ev = snd ?c"
      by (simp add: n chat_events_filters)
    ultimately show ?thesis
      using Inr h1 by (intro exI [of _ ?ev]) simp
  qed
qed

lemma chat_transcript_greeted:
  "chat transcript_agent (activity_text hello_context)
        (map Entry (history (conversation greeted_state)))
     = (Inr (Str ''user: Hi; assistant: Hello.; user: Hello! What is the capital of Norway?; ''),
        [ModelInvoke [HumanMessage (Str ''Hi''), AIMessage (Str ''Hello.'') [],
                      HumanMessage (Str ''Hello! What is the capital of Norway?'')]])"
  by (simp add: chat_def chat_messages_def graph_ainvoke_def chat_node_def node_messages_def
                new_HumanMessage_def new_AIMessage_def greeted_state_def hello_context_def
                Message_init_def transcript_agent_def transcript_model_def Let_def)

theorem responder_called_with_prior_history_witness:
  "\<exists>ev.
     perform (ContinueTask, working_env, hello_context, greeted_state)
             \<lparr>agent = Some transcript_agent\<rparr> =
       (Inr \<lparr>commands = [PredictedSayCommand (Message_init ''assistant''
               (Some (Str ''user: Hi; assistant: Hello.; user: Hello! What is the capital of Norway?; '')))]\<rparr>,
        history_append
          (history_append greeted_state
             (Message_init ''user'' (Some (Str (activity_text hello_context)))))
          (Message_init ''assistant''
             (Some (Str ''user: Hi; assistant: Hello.; user: Hello! What is the capital of Norway?; ''))),
        \<lparr>agent = Some transcript_agent\<rparr>, ev) \<and>
     filter is_AgentChat ev =
       [AgentChat (activity_text hello_context) (map Entry (history (conversation greeted_state)))] \<and>
     filter is_ModelInvoke ev =
       [ModelInvoke [HumanMessage (Str ''Hi''), AIMessage (Str ''Hello.'') [],
                     HumanMessage (Str ''Hello! What is the capital of Norway?'')]] \<and>
     butlast (history (conversation
                (history_append greeted_state
                   (Message_init ''user'' (Some (Str (activity_text hello_context)))))))
       = history (conversation greeted_state)"
proof -
  have e: "ensure_agent_initialized working_env hello_context greeted_state
             \<lparr>agent = Some transcript_agent\<rparr> = (Inr (), \<lparr>agent = Some transcript_agent\<rparr>, [])"
    by (simp add: ensure_initialized)
  have a: "agent \<lparr>agent = Some transcript_agent\<rparr> = Some transcript_agent"
    by simp
  show ?thesis
    using responder_called_with_prior_history [OF e a, of ContinueTask]
    by (simp add: chat_transcript_greeted)
qed

text \<open>
  C7. \<^verbatim>\<open>begin_task\<close> and \<^verbatim>\<open>continue_task\<close> agree on every context, state and planner:
  they return the same plan or raise the same exception, leave the same turn state and
  the same planner, and make the same calls to the collaborators. Their only difference
  is the prefix of one debug log line.
\<close>

theorem begin_task_continue_task_agree:
  "fst (begin_task env context state self) = fst (continue_task env context state self) \<and>
   fst (snd (begin_task env context state self)) = fst (snd (continue_task env context state self)) \<and>
   fst (snd (snd (begin_task env context state self)))
     = fst (snd (snd (continue_task env context state self))) \<and>
   filter (\<lambda>e. \<not> is_log e) (snd (snd (snd (begin_task env context state self))))
     = filter (\<lambda>e. \<not> is_log e) (snd (snd (snd (continue_task env context state self))))"
  by (simp add: begin_task_def continue_task_def Let_def split: prod.splits sum.splits)

section \<open>A planner's lifetime\<close>












end
